theory Spec2Isabelle
  imports Main "HOL-Library.Word"
begin

unbundle bit_operations_syntax

section \<open>Errors\<close>

text \<open>
  A Go \<open>error\<close> built by the package is one of the package's sentinel errors, a fresh
  \<open>errors.New\<close> value, or \<open>fmt.Errorf\<close> with one \<open>%w\<close> verb, which wraps an error under a
  message. The sentinels are declared in a file that is not among the sources; they are the
  eleven names the specification enumerates, taken as pairwise distinct values. Of a
  wrapped error the format string is kept; its rendered arguments play no part in
  \<open>errors.Is\<close>.
\<close>

datatype failure =
    ErrBadSignature
  | ErrUndischarged
  | ErrBadDischarge
  | ErrUnregisteredCaveat
  | ErrInvalidAccess
  | ErrResourceUnspecified
  | ErrResourcesMutuallyExclusive
  | ErrUnauthorizedForResource
  | ErrUnauthorizedForAction
  | ErrUnauthorized
  | ErrBadCaveat
  | errors_New string
  | Errorf string failure

text \<open>
  A value of Go type \<open>error\<close> is the list of the failures it holds: \<open>nil\<close> is the empty
  list, a plain error is a singleton, and the combined error that \<open>appendErrs\<close> builds is
  the list of its parts.
\<close>

type_synonym error = "failure list"

text \<open>
  Modelled from the spec: \<open>appendErrs\<close>, which is not among the sources. The
  specification calls its result the combined error, "all failures concatenated", and
  \<open>Ok\<close> when every part is \<open>Ok\<close>.
\<close>

definition appendErrs :: "error \<Rightarrow> error \<Rightarrow> error" where
  "appendErrs merr err = merr @ err"

text \<open>
  \<open>errors.Is\<close> follows the chain of wrapped errors; on a combined error it holds when it
  holds of a part, and on \<open>nil\<close> it is false.
\<close>

fun failure_Is :: "failure \<Rightarrow> failure \<Rightarrow> bool" where
  "failure_Is (Errorf msg e) target = (Errorf msg e = target \<or> failure_Is e target)"
| "failure_Is e target = (e = target)"

definition errors_Is :: "error \<Rightarrow> failure \<Rightarrow> bool" where
  "errors_Is err target = list_ex (\<lambda>e. failure_Is e target) err"

section \<open>Actions, time and accesses\<close>

text \<open>
  Modelled from the spec: \<open>Action\<close> and \<open>IsSubsetOf\<close>, whose declarations are not among
  the sources. The tests combine actions with bitwise or, so an action is a bit mask of
  permitted operations, and \<open>a.IsSubsetOf(b)\<close> is the inclusion of the masks that the
  specification writes \<open>a \<subseteq> b\<close>.
\<close>

type_synonym Action = "16 word"

definition IsSubsetOf :: "Action \<Rightarrow> Action \<Rightarrow> bool" where
  "IsSubsetOf a other = (a AND other = a)"

text \<open>
  A \<open>time.Time\<close> is an instant: whole seconds since the Unix epoch and the nanoseconds
  within the second. \<open>After\<close> and \<open>Before\<close> are the strict orders on instants, and
  \<open>time.Unix(sec, 0)\<close> is the instant at the start of second \<open>sec\<close>. The zero
  \<open>Time\<close> of Go is the first instant of year 1.
\<close>

text \<open>An \<open>int64\<close> is a 64-bit word read as two's complement (\<open>sint\<close>).\<close>

type_synonym int64 = "64 word"

datatype Time = Time (sec: int) (nsec: nat)

definition After :: "Time \<Rightarrow> Time \<Rightarrow> bool" where
  "After t u = (sec t > sec u \<or> (sec t = sec u \<and> nsec t > nsec u))"

definition Before :: "Time \<Rightarrow> Time \<Rightarrow> bool" where
  "Before t u = (sec t < sec u \<or> (sec t = sec u \<and> nsec t < nsec u))"

definition time_Unix :: "int64 \<Rightarrow> nat \<Rightarrow> Time" where
  "time_Unix s n = Time (sint s) n"

definition IsZero :: "Time \<Rightarrow> bool" where
  "IsZero t = (sec t = - 62135596800 \<and> nsec t = 0)"

text \<open>
  The two implementations of the \<open>Access\<close> interface in the sources: \<open>testAccess\<close> of
  the package's tests and \<open>flyio.Access\<close>. Pointer fields are optional values. Both read
  the wall clock (\<open>time.Now()\<close>) in \<open>Now\<close>; an access carries that reading in the field
  \<open>clock\<close>.
\<close>

record testAccess =
  action :: Action
  parentResource :: "64 word option"
  childResource :: "64 word option"
  now :: Time

record flyio_Access =
  OrgID :: "64 word"
  AppID :: "64 word option"
  Action :: Action
  Feature :: "string option"
  Volume :: "string option"
  Machine :: "string option"
  MachineFeature :: "string option"
  Mutation :: "string option"
  SourceMachine :: "string option"
  Cluster :: "string option"

datatype Access =
    TestAccess testAccess (clock: Time)
  | FlyioAccess flyio_Access (clock: Time)

fun GetAction :: "Access \<Rightarrow> Action" where
  "GetAction (TestAccess f c) = action f"
| "GetAction (FlyioAccess a c) = Action a"

fun Now :: "Access \<Rightarrow> Time" where
  "Now (TestAccess f c) = (if IsZero (now f) then c else now f)"
| "Now (FlyioAccess a c) = c"

definition flyio_Validate :: "flyio_Access \<Rightarrow> error" where
  "flyio_Validate f =
     (if OrgID f = 0 then [Errorf ''%w org'' ErrResourceUnspecified]
      else if AppID f \<noteq> None \<and> Feature f \<noteq> None
        then [Errorf ''%w: app, feature'' ErrResourcesMutuallyExclusive]
      else if (Machine f \<noteq> None \<or> Volume f \<noteq> None) \<and> AppID f = None
        then [Errorf ''%w app'' ErrResourceUnspecified]
      else if (Machine f \<noteq> None \<or> Volume f \<noteq> None) \<and> Machine f \<noteq> None \<and> Volume f \<noteq> None
        then [Errorf ''%w: volume, machine'' ErrResourcesMutuallyExclusive]
      else if MachineFeature f \<noteq> None \<and> Machine f = None
        then [Errorf ''%w machine'' ErrResourceUnspecified]
      else [])"

definition testAccess_Validate :: "testAccess \<Rightarrow> error" where
  "testAccess_Validate f =
     (if childResource f \<noteq> None \<and> parentResource f = None then [ErrResourceUnspecified]
      else [])"

fun Access_Validate :: "Access \<Rightarrow> error" where
  "Access_Validate (TestAccess f c) = testAccess_Validate f"
| "Access_Validate (FlyioAccess a c) = flyio_Validate a"

section \<open>Wire values\<close>

text \<open>
  The msgpack and JSON encoders are libraries outside the repository. A msgpack stream
  is modelled by the value it holds: an array is the list of its elements, so the length
  that \<open>EncodeArrayLen\<close> writes is the length of that list, and the values written after
  it are its elements. A JSON text is modelled by the value it denotes; \<open>JBase64 b\<close> is
  the JSON string holding the base64 text of the bytes \<open>b\<close>, which is how
  \<open>encoding/json\<close> writes a byte slice and reads it back.
\<close>

type_synonym bytes = "8 word list"

datatype msgpack =
    MNil
  | MBool bool
  | MUint "64 word"
  | MInt int64
  | MStr string
  | MBin bytes
  | MArray "msgpack list"
  | MMap "(msgpack \<times> msgpack) list"

datatype json =
    JNull
  | JBool bool
  | JNumber int
  | JString string
  | JBase64 bytes
  | JArray "json list"
  | JObject "(string \<times> json) list"

section \<open>Caveats\<close>

text \<open>
  The four caveat types of the package, and \<open>User\<close> for a caveat type that a client of
  the package registers: \<open>Caveat3P\<close> with its fields \<open>Location\<close>, \<open>VID\<close>, \<open>CID\<close> and
  \<open>rn\<close>, \<open>IfPresent\<close> with \<open>Ifs\<close> and \<open>Else\<close>, \<open>ValidityWindow\<close> with \<open>NotBefore\<close> and
  \<open>NotAfter\<close>, and \<open>BindToParentToken\<close>, a byte slice. A \<open>CaveatSet\<close> is the slice
  \<open>Caveats\<close> it holds, a list of caveats. \<open>IfPresent.Ifs\<close> is a pointer to a caveat set in the source; the model
  identifies the pointer with the set it points to, so an \<open>IfPresent\<close> with a nil
  \<open>Ifs\<close>, which \<open>Prohibits\<close> would dereference, is not a value of the model.
\<close>

type_synonym CaveatType = "64 word"

datatype 'u caveat =
    Caveat3P string bytes bytes bytes
  | IfPresent "'u caveat list" Action
  | ValidityWindow int64 int64
  | BindToParentToken bytes
  | User 'u

text \<open>
  The \<open>Caveat\<close> interface as a client type \<open>'u\<close> implements it: its three methods,
  and what the msgpack and JSON encoders do on a value of the type. The decoders fill a
  zero value of the type, their first argument.
\<close>

record 'u UserCaveat =
  userCaveatType :: "'u \<Rightarrow> CaveatType"
  userProhibits :: "'u \<Rightarrow> Access \<Rightarrow> error"
  userIsAttestation :: "'u \<Rightarrow> bool"
  userEncode :: "'u \<Rightarrow> failure + msgpack"
  userDecode :: "'u \<Rightarrow> msgpack \<Rightarrow> failure + 'u"
  userMarshal :: "'u \<Rightarrow> failure + json"
  userUnmarshal :: "'u \<Rightarrow> json \<Rightarrow> failure + 'u"

text \<open>
  The caveat type codes are constants declared in a file that is not among the sources.
  The functions that use them take them as a parameter.
\<close>

record CaveatTypes =
  Cav3P :: CaveatType
  CavIfPresent :: CaveatType
  CavValidityWindow :: CaveatType
  CavBindToParentToken :: CaveatType
  CavMinUserDefined :: CaveatType

fun CaveatType :: "CaveatTypes \<Rightarrow> 'u UserCaveat \<Rightarrow> 'u caveat \<Rightarrow> CaveatType" where
  "CaveatType K U (Caveat3P l v c r) = Cav3P K"
| "CaveatType K U (IfPresent ifs els) = CavIfPresent K"
| "CaveatType K U (ValidityWindow nb na) = CavValidityWindow K"
| "CaveatType K U (BindToParentToken p) = CavBindToParentToken K"
| "CaveatType K U (User u) = userCaveatType U u"

fun IsAttestation :: "'u UserCaveat \<Rightarrow> 'u caveat \<Rightarrow> bool" where
  "IsAttestation U (User u) = userIsAttestation U u"
| "IsAttestation U c = False"

text \<open>
  \<open>Prohibits\<close> of the four caveat types. \<open>IfPresent_loop\<close> is the loop of
  \<open>IfPresent.Prohibits\<close> over \<open>c.Ifs.Caveats\<close>, on the pair of its variables \<open>merr\<close> and
  \<open>ifBranch\<close>.
\<close>

fun Prohibits :: "'u UserCaveat \<Rightarrow> 'u caveat \<Rightarrow> Access \<Rightarrow> error"
  and IfPresent_loop :: "'u UserCaveat \<Rightarrow> 'u caveat list \<Rightarrow> Access \<Rightarrow> error \<times> bool \<Rightarrow> error \<times> bool"
where
  "Prohibits U (Caveat3P l v c r) f = [Errorf ''%w (3rd party caveat)'' ErrBadCaveat]"
| "Prohibits U (IfPresent ifs els) f =
     (case IfPresent_loop U ifs f ([], False) of
        (merr, ifBranch) \<Rightarrow>
          if \<not> ifBranch \<and> \<not> IsSubsetOf (GetAction f) els
          then [Errorf ''%w access %s (%s not allowed)'' ErrUnauthorizedForAction]
          else merr)"
| "Prohibits U (ValidityWindow nb na) f =
     (if After (Now f) (time_Unix na 0)
      then [Errorf ''%w: token only valid until %s'' ErrUnauthorized]
      else if Before (Now f) (time_Unix nb 0)
      then [Errorf ''%w: token not valid until %s'' ErrUnauthorized]
      else [])"
| "Prohibits U (BindToParentToken p) f = [Errorf ''%w (bind-to-parent)'' ErrBadCaveat]"
| "Prohibits U (User u) f = userProhibits U u f"
| "IfPresent_loop U [] f st = st"
| "IfPresent_loop U (cc # ccs) f st =
     (let cErr = Prohibits U cc f in
      if \<not> errors_Is cErr ErrResourceUnspecified
      then IfPresent_loop U ccs f (appendErrs (fst st) cErr, True)
      else IfPresent_loop U ccs f st)"

section \<open>Validating accesses against a caveat set\<close>

fun validateAccess_loop :: "'u UserCaveat \<Rightarrow> error \<Rightarrow> 'u caveat list \<Rightarrow> Access \<Rightarrow> error" where
  "validateAccess_loop U merr [] access = merr"
| "validateAccess_loop U merr (caveat # cs) access =
     (if IsAttestation U caveat then validateAccess_loop U merr cs access
      else validateAccess_loop U (appendErrs merr (Prohibits U caveat access)) cs access)"

definition validateAccess :: "'u UserCaveat \<Rightarrow> 'u caveat list \<Rightarrow> Access \<Rightarrow> error" where
  "validateAccess U c access = validateAccess_loop U [] c access"

fun Validate_loop :: "'u UserCaveat \<Rightarrow> error \<Rightarrow> 'u caveat list \<Rightarrow> Access list \<Rightarrow> error" where
  "Validate_loop U merr cs [] = merr"
| "Validate_loop U merr cs (access # accesses) =
     (let ferr = Access_Validate access in
      if ferr \<noteq> [] then Validate_loop U (appendErrs merr ferr) cs accesses
      else Validate_loop U (appendErrs merr (validateAccess U cs access)) cs accesses)"

definition Validate :: "'u UserCaveat \<Rightarrow> 'u caveat list \<Rightarrow> Access list \<Rightarrow> error" where
  "Validate U cs accesses = Validate_loop U [] cs accesses"

text \<open>
  \<open>Validate\<close> as the specification words it, for comparison with the source: every
  access contributes the error of its own \<open>Validate()\<close> and then the results of all
  caveats that are not attestations.
\<close>

definition Validate_as_claimed :: "'u UserCaveat \<Rightarrow> 'u caveat list \<Rightarrow> Access list \<Rightarrow> error" where
  "Validate_as_claimed U cs accesses =
     concat (map (\<lambda>access. Access_Validate access @
                    concat (map (\<lambda>caveat. Prohibits U caveat access)
                                (filter (\<lambda>caveat. \<not> IsAttestation U caveat) cs))) accesses)"

section \<open>The caveat registry\<close>

text \<open>
  Modelled from the spec: the registry and its lookups \<open>typeToCaveat\<close>,
  \<open>caveatTypeToString\<close> and \<open>caveatTypeFromString\<close>, which are not among the sources.
  The registry is the process-wide table of the registrations made at start-up, each a
  name, a type code and the zero value of the type. \<open>typeToCaveat\<close> returns the zero
  value registered for a code and fails with \<open>ErrUnregisteredCaveat\<close> on an unknown code.
  \<open>caveatTypeToString\<close> returns the empty string for an unknown code, which is what
  \<open>MarshalJSON\<close> tests. For a name outside the table \<open>caveatTypeFromString\<close> returns a
  code that names no registered type; the model writes that result as \<open>None\<close>.
\<close>

type_synonym 'u registry = "(string \<times> CaveatType \<times> 'u caveat) list"

definition typeToCaveat :: "'u registry \<Rightarrow> CaveatType \<Rightarrow> failure + 'u caveat" where
  "typeToCaveat reg t =
     (case find (\<lambda>r. fst (snd r) = t) reg of
        None \<Rightarrow> Inl (Errorf ''%w, %d'' ErrUnregisteredCaveat)
      | Some r \<Rightarrow> Inr (snd (snd r)))"

definition caveatTypeToString :: "'u registry \<Rightarrow> CaveatType \<Rightarrow> string" where
  "caveatTypeToString reg t =
     (case find (\<lambda>r. fst (snd r) = t) reg of
        None \<Rightarrow> []
      | Some r \<Rightarrow> fst r)"

definition caveatTypeFromString :: "'u registry \<Rightarrow> string \<Rightarrow> CaveatType option" where
  "caveatTypeFromString reg s =
     (case find (\<lambda>r. fst r = s) reg of
        None \<Rightarrow> None
      | Some r \<Rightarrow> Some (fst (snd r)))"

text \<open>The registrations that the \<open>init\<close> functions of \<open>caveats.go\<close> make.\<close>

definition init_caveats :: "CaveatTypes \<Rightarrow> 'u registry" where
  "init_caveats K =
     [(''3P'', Cav3P K, Caveat3P [] [] [] []),
      (''IfPresent'', CavIfPresent K, IfPresent [] 0),
      (''ValidityWindow'', CavValidityWindow K, ValidityWindow 0 0),
      (''BindToParentToken'', CavBindToParentToken K, BindToParentToken [])]"

section \<open>The binary form of a caveat set\<close>

text \<open>
  \<open>msgpack_Encode\<close> is \<open>enc.Encode(cav)\<close> on a caveat: the library writes a struct from
  its declaration, the exported fields in order (\<open>rn\<close> of \<open>Caveat3P\<close> is unexported and
  tagged \<open>msgpack:"-"\<close>, so it is not written), a byte slice as a binary value, and a
  \<open>CaveatSet\<close> through its \<open>EncodeMsgpack\<close>. The encoder's configuration is set in a
  function that is not among the sources; a struct is taken to be written as the array
  of its fields.
\<close>

fun msgpack_Encode :: "CaveatTypes \<Rightarrow> 'u UserCaveat \<Rightarrow> 'u caveat \<Rightarrow> failure + msgpack"
  and EncodeMsgpack :: "CaveatTypes \<Rightarrow> 'u UserCaveat \<Rightarrow> 'u caveat list \<Rightarrow> failure + msgpack"
  and EncodeMsgpack_loop :: "CaveatTypes \<Rightarrow> 'u UserCaveat \<Rightarrow> 'u caveat list \<Rightarrow> failure + msgpack list"
where
  "msgpack_Encode K U (Caveat3P l v c r) = Inr (MArray [MStr l, MBin v, MBin c])"
| "msgpack_Encode K U (IfPresent ifs els) =
     (case EncodeMsgpack K U ifs of
        Inl e \<Rightarrow> Inl e
      | Inr a \<Rightarrow> Inr (MArray [a, MUint (ucast els)]))"
| "msgpack_Encode K U (ValidityWindow nb na) = Inr (MArray [MInt nb, MInt na])"
| "msgpack_Encode K U (BindToParentToken p) = Inr (MBin p)"
| "msgpack_Encode K U (User u) = userEncode U u"
| "EncodeMsgpack K U cs =
     (case EncodeMsgpack_loop K U cs of
        Inl e \<Rightarrow> Inl e
      | Inr xs \<Rightarrow> Inr (MArray xs))"
| "EncodeMsgpack_loop K U [] = Inr []"
| "EncodeMsgpack_loop K U (cav # cs) =
     (case msgpack_Encode K U cav of
        Inl e \<Rightarrow> Inl e
      | Inr b \<Rightarrow>
          (case EncodeMsgpack_loop K U cs of
             Inl e \<Rightarrow> Inl e
           | Inr xs \<Rightarrow> Inr (MUint (CaveatType K U cav) # b # xs)))"


text \<open>
  The decoder's reads. \<open>DecodeArrayLen\<close> returns the length of the array, or \<open>-1\<close> on
  nil. \<open>go_rem\<close> is the remainder operator of Go, which truncates towards zero.
\<close>

definition DecodeArrayLen :: "msgpack \<Rightarrow> failure + int" where
  "DecodeArrayLen v =
     (case v of
        MArray xs \<Rightarrow> Inr (int (length xs))
      | MNil \<Rightarrow> Inr (- 1)
      | _ \<Rightarrow> Inl (errors_New ''msgpack: invalid code decoding array length''))"

definition DecodeUint :: "msgpack \<Rightarrow> failure + 64 word" where
  "DecodeUint v =
     (case v of
        MUint n \<Rightarrow> Inr n
      | _ \<Rightarrow> Inl (errors_New ''msgpack: invalid code decoding uint64''))"

definition go_rem :: "int \<Rightarrow> int \<Rightarrow> int" where
  "go_rem a b = a - b * (sgn a * sgn b * (\<bar>a\<bar> div \<bar>b\<bar>))"

text \<open>
  \<open>msgpack_Decode\<close> is \<open>dec.Decode(cav)\<close> into the zero value \<open>cav\<close> that \<open>typeToCaveat\<close>
  returned: it reads the form that \<open>msgpack_Encode\<close> writes for the type of \<open>cav\<close>, and
  any other value is an error. \<open>DecodeMsgpack\<close> returns the receiver, with the caveats
  it appended, and the error. \<open>DecodeMsgpack_loop\<close> is its loop, on the elements that
  are left to read.
\<close>

fun msgpack_Decode :: "'u UserCaveat \<Rightarrow> 'u registry \<Rightarrow> 'u caveat \<Rightarrow> msgpack \<Rightarrow> failure + 'u caveat"
  and DecodeMsgpack :: "'u UserCaveat \<Rightarrow> 'u registry \<Rightarrow> 'u caveat list \<Rightarrow> msgpack \<Rightarrow> 'u caveat list \<times> error"
  and DecodeMsgpack_loop :: "'u UserCaveat \<Rightarrow> 'u registry \<Rightarrow> 'u caveat list \<Rightarrow> msgpack list \<Rightarrow> 'u caveat list \<times> error"
where
  "msgpack_Decode U reg (Caveat3P l0 v0 c0 r) v =
     (case v of
        MArray [MStr l, MBin vid, MBin cid] \<Rightarrow> Inr (Caveat3P l vid cid r)
      | _ \<Rightarrow> Inl (errors_New ''msgpack: cannot decode into Caveat3P''))"
| "msgpack_Decode U reg (IfPresent ifs0 els0) v =
     (case v of
        MArray [a, MUint els] \<Rightarrow>
          (case DecodeMsgpack U reg [] a of
             (ifs, []) \<Rightarrow> Inr (IfPresent ifs (ucast els))
           | (ifs, e # es) \<Rightarrow> Inl e)
      | _ \<Rightarrow> Inl (errors_New ''msgpack: cannot decode into IfPresent''))"
| "msgpack_Decode U reg (ValidityWindow nb0 na0) v =
     (case v of
        MArray [MInt nb, MInt na] \<Rightarrow> Inr (ValidityWindow nb na)
      | _ \<Rightarrow> Inl (errors_New ''msgpack: cannot decode into ValidityWindow''))"
| "msgpack_Decode U reg (BindToParentToken p0) v =
     (case v of
        MBin p \<Rightarrow> Inr (BindToParentToken p)
      | _ \<Rightarrow> Inl (errors_New ''msgpack: cannot decode into BindToParentToken''))"
| "msgpack_Decode U reg (User u) v =
     (case userDecode U u v of Inl e \<Rightarrow> Inl e | Inr u' \<Rightarrow> Inr (User u'))"
| "DecodeMsgpack U reg c v =
     (case DecodeArrayLen v of
        Inl e \<Rightarrow> (c, [e])
      | Inr aLen \<Rightarrow>
          if go_rem aLen 2 \<noteq> 0 then (c, [errors_New ''bad caveat container''])
          else (case v of
                  MArray xs \<Rightarrow> DecodeMsgpack_loop U reg c xs
                | _ \<Rightarrow> (c, [])))"
| "DecodeMsgpack_loop U reg c [] = (c, [])"
| "DecodeMsgpack_loop U reg c [x] = (c, [errors_New ''EOF''])"
| "DecodeMsgpack_loop U reg c (tv # bv # rest) =
     (case DecodeUint tv of
        Inl e \<Rightarrow> (c, [e])
      | Inr t \<Rightarrow>
          (case typeToCaveat reg t of
             Inl e \<Rightarrow> (c, [e])
           | Inr cav \<Rightarrow>
               (case msgpack_Decode U reg cav bv of
                  Inl e \<Rightarrow> (c, [e])
                | Inr cav' \<Rightarrow> DecodeMsgpack_loop U reg (c @ [cav']) rest)))"

definition DecodeCaveats :: "'u UserCaveat \<Rightarrow> 'u registry \<Rightarrow> msgpack \<Rightarrow> failure + 'u caveat list" where
  "DecodeCaveats U reg buf =
     (case DecodeMsgpack U reg [] buf of
        (cavs, []) \<Rightarrow> Inr cavs
      | (cavs, e # es) \<Rightarrow> Inl e)"

section \<open>The JSON form of a caveat set\<close>

text \<open>
  \<open>MarshalJSON\<close> writes an array of objects with the members \<open>type\<close> and \<open>body\<close>.
  \<open>json_Marshal\<close> is \<open>json.Marshal\<close> on a caveat: the library writes a struct from its
  declaration, the exported fields under their \<open>json\<close> tags or names (\<open>rn\<close> of
  \<open>Caveat3P\<close> is unexported and is not written), and a \<open>CaveatSet\<close> through its
  \<open>MarshalJSON\<close>. \<open>Action\<close> is declared in a file that is not among the sources; its
  JSON form is taken to be the number of the mask.
\<close>

record jsonCaveat =
  Type :: string
  Body :: json

definition json_Marshal_jsonCaveats :: "jsonCaveat list \<Rightarrow> json" where
  "json_Marshal_jsonCaveats jcavs =
     JArray (map (\<lambda>jc. JObject [(''type'', JString (Type jc)), (''body'', Body jc)]) jcavs)"

fun json_Marshal :: "CaveatTypes \<Rightarrow> 'u UserCaveat \<Rightarrow> 'u registry \<Rightarrow> 'u caveat \<Rightarrow> failure + json"
  and MarshalJSON :: "CaveatTypes \<Rightarrow> 'u UserCaveat \<Rightarrow> 'u registry \<Rightarrow> 'u caveat list \<Rightarrow> failure + json"
  and MarshalJSON_loop :: "CaveatTypes \<Rightarrow> 'u UserCaveat \<Rightarrow> 'u registry \<Rightarrow> 'u caveat list \<Rightarrow> failure + jsonCaveat list"
where
  "json_Marshal K U reg (Caveat3P l v c r) =
     Inr (JObject [(''Location'', JString l), (''VID'', JBase64 v), (''CID'', JBase64 c)])"
| "json_Marshal K U reg (IfPresent ifs els) =
     (case MarshalJSON K U reg ifs of
        Inl e \<Rightarrow> Inl e
      | Inr a \<Rightarrow> Inr (JObject [(''ifs'', a), (''else'', JNumber (uint els))]))"
| "json_Marshal K U reg (ValidityWindow nb na) =
     Inr (JObject [(''not_before'', JNumber (sint nb)), (''not_after'', JNumber (sint na))])"
| "json_Marshal K U reg (BindToParentToken p) = Inr (JBase64 p)"
| "json_Marshal K U reg (User u) = userMarshal U u"
| "MarshalJSON K U reg c =
     (case MarshalJSON_loop K U reg c of
        Inl e \<Rightarrow> Inl e
      | Inr jcavs \<Rightarrow> Inr (json_Marshal_jsonCaveats jcavs))"
| "MarshalJSON_loop K U reg [] = Inr []"
| "MarshalJSON_loop K U reg (cav # cs) =
     (let ct = CaveatType K U cav; cts = caveatTypeToString reg ct in
      if cts = [] then Inl (errors_New ''unregistered caveat type: %d'')
      else (case json_Marshal K U reg cav of
              Inl e \<Rightarrow> Inl e
            | Inr body \<Rightarrow>
                (case MarshalJSON_loop K U reg cs of
                   Inl e \<Rightarrow> Inl e
                 | Inr jcavs \<Rightarrow> Inr (\<lparr>Type = cts, Body = body\<rparr> # jcavs))))"

text \<open>
  \<open>json.Unmarshal\<close> into a slice of \<open>jsonCaveat\<close> reads an array of objects, looking
  the members up by name; a missing or null member leaves the zero value of the field.
  \<open>json_Unmarshal\<close> is \<open>json.Unmarshal\<close> of a body into the zero value that
  \<open>typeToCaveat\<close> returned, member by member in the same way. A body that is itself
  \<open>null\<close> would leave a nil caveat in the set; the model has no nil caveat and reads
  such a body like any other. \<open>UnmarshalJSON\<close> replaces the caveats of its receiver, so
  it returns the new list, or the error.
\<close>

definition json_field :: "(string \<times> json) list \<Rightarrow> string \<Rightarrow> json" where
  "json_field kvs k = (case map_of kvs k of None \<Rightarrow> JNull | Some j \<Rightarrow> j)"

definition json_Unmarshal_jsonCaveat :: "json \<Rightarrow> failure + jsonCaveat" where
  "json_Unmarshal_jsonCaveat j =
     (case j of
        JObject kvs \<Rightarrow>
          (case json_field kvs ''type'' of
             JString s \<Rightarrow> Inr \<lparr>Type = s, Body = json_field kvs ''body''\<rparr>
           | JNull \<Rightarrow> Inr \<lparr>Type = [], Body = json_field kvs ''body''\<rparr>
           | _ \<Rightarrow> Inl (errors_New ''json: cannot unmarshal into jsonCaveat.type''))
      | JNull \<Rightarrow> Inr \<lparr>Type = [], Body = JNull\<rparr>
      | _ \<Rightarrow> Inl (errors_New ''json: cannot unmarshal into jsonCaveat''))"

fun json_Unmarshal_list :: "json list \<Rightarrow> failure + jsonCaveat list" where
  "json_Unmarshal_list [] = Inr []"
| "json_Unmarshal_list (j # js) =
     (case json_Unmarshal_jsonCaveat j of
        Inl e \<Rightarrow> Inl e
      | Inr jc \<Rightarrow>
          (case json_Unmarshal_list js of
             Inl e \<Rightarrow> Inl e
           | Inr jcs \<Rightarrow> Inr (jc # jcs)))"

definition json_Unmarshal_jsonCaveats :: "json \<Rightarrow> failure + jsonCaveat list" where
  "json_Unmarshal_jsonCaveats b =
     (case b of
        JArray js \<Rightarrow> json_Unmarshal_list js
      | JNull \<Rightarrow> Inr []
      | _ \<Rightarrow> Inl (errors_New ''json: cannot unmarshal into []jsonCaveat''))"

text \<open>The body of a parsed \<open>jsonCaveat\<close> is part of the text it was read from.\<close>

lemma size_json_field: "size (json_field kvs k) \<le> size_list (size_prod (\<lambda>_. 0) size) kvs"
  unfolding json_field_def
  by (induction kvs) (auto split: option.splits)

lemma size_jsonCaveat: "json_Unmarshal_jsonCaveat j = Inr jc \<Longrightarrow> size (Body jc) \<le> size j"
  unfolding json_Unmarshal_jsonCaveat_def
  using size_json_field[of _ "''body''"]
  by (auto split: json.splits simp: le_SucI)

lemma size_jsonCaveat_list:
  "json_Unmarshal_list js = Inr jcs \<Longrightarrow> size_list (\<lambda>jc. size (Body jc)) jcs \<le> size_list size js"
  by (induction js arbitrary: jcs) (auto split: sum.splits dest!: size_jsonCaveat)

lemma size_jsonCaveats:
  "json_Unmarshal_jsonCaveats b = Inr jcs \<Longrightarrow> size_list (\<lambda>jc. size (Body jc)) jcs \<le> size b"
  unfolding json_Unmarshal_jsonCaveats_def
  by (auto split: json.splits dest!: size_jsonCaveat_list simp: le_SucI)

definition json_string :: "json \<Rightarrow> string \<Rightarrow> failure + string" where
  "json_string j dflt =
     (case j of
        JString s \<Rightarrow> Inr s
      | JNull \<Rightarrow> Inr dflt
      | _ \<Rightarrow> Inl (errors_New ''json: cannot unmarshal into string''))"

definition json_bytes :: "json \<Rightarrow> bytes \<Rightarrow> failure + bytes" where
  "json_bytes j dflt =
     (case j of
        JBase64 b \<Rightarrow> Inr b
      | JNull \<Rightarrow> Inr dflt
      | _ \<Rightarrow> Inl (errors_New ''json: cannot unmarshal into []byte''))"

definition json_int64 :: "json \<Rightarrow> int64 \<Rightarrow> failure + int64" where
  "json_int64 j dflt =
     (case j of
        JNumber n \<Rightarrow>
          if - (2 ^ 63) \<le> n \<and> n < 2 ^ 63 then Inr (word_of_int n)
          else Inl (errors_New ''json: cannot unmarshal number into int64'')
      | JNull \<Rightarrow> Inr dflt
      | _ \<Rightarrow> Inl (errors_New ''json: cannot unmarshal into int64''))"

definition json_Action :: "json \<Rightarrow> Action \<Rightarrow> failure + Action" where
  "json_Action j dflt =
     (case j of
        JNumber n \<Rightarrow>
          if 0 \<le> n \<and> n < 2 ^ 16 then Inr (word_of_int n)
          else Inl (errors_New ''json: cannot unmarshal number into Action'')
      | JNull \<Rightarrow> Inr dflt
      | _ \<Rightarrow> Inl (errors_New ''json: cannot unmarshal into Action''))"

function json_Unmarshal :: "'u UserCaveat \<Rightarrow> 'u registry \<Rightarrow> 'u caveat \<Rightarrow> json \<Rightarrow> failure + 'u caveat"
  and UnmarshalJSON :: "'u UserCaveat \<Rightarrow> 'u registry \<Rightarrow> json \<Rightarrow> failure + 'u caveat list"
  and UnmarshalJSON_loop :: "'u UserCaveat \<Rightarrow> 'u registry \<Rightarrow> jsonCaveat list \<Rightarrow> failure + 'u caveat list"
where
  "json_Unmarshal U reg (Caveat3P l0 v0 c0 r) b =
     (case b of
        JObject kvs \<Rightarrow>
          (case json_string (json_field kvs ''Location'') l0 of
             Inl e \<Rightarrow> Inl e
           | Inr l \<Rightarrow>
               (case json_bytes (json_field kvs ''VID'') v0 of
                  Inl e \<Rightarrow> Inl e
                | Inr v \<Rightarrow>
                    (case json_bytes (json_field kvs ''CID'') c0 of
                       Inl e \<Rightarrow> Inl e
                     | Inr c \<Rightarrow> Inr (Caveat3P l v c r))))
      | _ \<Rightarrow> Inl (errors_New ''json: cannot unmarshal into Caveat3P''))"
| "json_Unmarshal U reg (IfPresent ifs0 els0) b =
     (case b of
        JObject kvs \<Rightarrow>
          (case (if json_field kvs ''ifs'' = JNull then Inr ifs0
                 else UnmarshalJSON U reg (json_field kvs ''ifs'')) of
             Inl e \<Rightarrow> Inl e
           | Inr ifs \<Rightarrow>
               (case json_Action (json_field kvs ''else'') els0 of
                  Inl e \<Rightarrow> Inl e
                | Inr els \<Rightarrow> Inr (IfPresent ifs els)))
      | _ \<Rightarrow> Inl (errors_New ''json: cannot unmarshal into IfPresent''))"
| "json_Unmarshal U reg (ValidityWindow nb0 na0) b =
     (case b of
        JObject kvs \<Rightarrow>
          (case json_int64 (json_field kvs ''not_before'') nb0 of
             Inl e \<Rightarrow> Inl e
           | Inr nb \<Rightarrow>
               (case json_int64 (json_field kvs ''not_after'') na0 of
                  Inl e \<Rightarrow> Inl e
                | Inr na \<Rightarrow> Inr (ValidityWindow nb na)))
      | _ \<Rightarrow> Inl (errors_New ''json: cannot unmarshal into ValidityWindow''))"
| "json_Unmarshal U reg (BindToParentToken p0) b =
     (case json_bytes b p0 of
        Inl e \<Rightarrow> Inl e
      | Inr p \<Rightarrow> Inr (BindToParentToken p))"
| "json_Unmarshal U reg (User u) b =
     (case userUnmarshal U u b of Inl e \<Rightarrow> Inl e | Inr u' \<Rightarrow> Inr (User u'))"
| "UnmarshalJSON U reg b =
     (case json_Unmarshal_jsonCaveats b of
        Inl e \<Rightarrow> Inl e
      | Inr jcavs \<Rightarrow> UnmarshalJSON_loop U reg jcavs)"
| "UnmarshalJSON_loop U reg [] = Inr []"
| "UnmarshalJSON_loop U reg (jc # jcavs) =
     (case caveatTypeFromString reg (Type jc) of
        None \<Rightarrow> Inl (errors_New ''bad caveat type: %s'')
      | Some t \<Rightarrow>
          (case typeToCaveat reg t of
             Inl e \<Rightarrow> Inl (errors_New ''bad caveat type: %s'')
           | Inr cav \<Rightarrow>
               (case json_Unmarshal U reg cav (Body jc) of
                  Inl e \<Rightarrow> Inl e
                | Inr cav' \<Rightarrow>
                    (case UnmarshalJSON_loop U reg jcavs of
                       Inl e \<Rightarrow> Inl e
                     | Inr cs \<Rightarrow> Inr (cav' # cs)))))"
  by pat_completeness auto
termination
  apply (relation "measure (\<lambda>x. case x of
            Inl (U, reg, cav, b) \<Rightarrow> 3 * size b
          | Inr (Inl (U, reg, b)) \<Rightarrow> 3 * size b + 2
          | Inr (Inr (U, reg, jcavs)) \<Rightarrow> 3 * size_list (\<lambda>jc. size (Body jc)) jcavs + 1)")
      apply simp
     apply (simp add: le_imp_less_Suc size_json_field)
  subgoal for U reg b jcavs using size_jsonCaveats[of b jcavs] by simp
   apply simp
  apply simp
  done

section \<open>The caveats of the package's tests\<close>

text \<open>
  The two caveat types that \<open>macaroon_test.go\<close> declares and registers. Their type codes
  count up from \<open>CavMinUserDefined\<close>. Both are structs of an \<open>ID\<close> and a
  \<open>Permission\<close>, which the encoders write field by field.
\<close>

datatype testCaveat =
    testCaveatParentResource (ID: "64 word") (Permission: Action)
  | testCaveatChildResource (ID: "64 word") (Permission: Action)

definition cavTestParentResource :: "CaveatTypes \<Rightarrow> CaveatType" where
  "cavTestParentResource K = 0 + CavMinUserDefined K"

definition cavTestChildResource :: "CaveatTypes \<Rightarrow> CaveatType" where
  "cavTestChildResource K = 1 + CavMinUserDefined K"

fun testCaveat_CaveatType :: "CaveatTypes \<Rightarrow> testCaveat \<Rightarrow> CaveatType" where
  "testCaveat_CaveatType K (testCaveatParentResource i p) = cavTestParentResource K"
| "testCaveat_CaveatType K (testCaveatChildResource i p) = cavTestChildResource K"

fun testCaveat_Prohibits :: "testCaveat \<Rightarrow> Access \<Rightarrow> error" where
  "testCaveat_Prohibits c (FlyioAccess a t) = [ErrInvalidAccess]"
| "testCaveat_Prohibits (testCaveatParentResource i p) (TestAccess tf t) =
     (case parentResource tf of
        None \<Rightarrow> [ErrResourceUnspecified]
      | Some r \<Rightarrow>
          if r \<noteq> i then [Errorf ''%w resource'' ErrUnauthorizedForResource]
          else if \<not> IsSubsetOf (action tf) p then [Errorf ''%w action'' ErrUnauthorizedForAction]
          else [])"
| "testCaveat_Prohibits (testCaveatChildResource i p) (TestAccess tf t) =
     (case childResource tf of
        None \<Rightarrow> [ErrResourceUnspecified]
      | Some r \<Rightarrow>
          if r \<noteq> i then [Errorf ''%w resource'' ErrUnauthorizedForResource]
          else if \<not> IsSubsetOf (action tf) p then [Errorf ''%w action'' ErrUnauthorizedForAction]
          else [])"

fun testCaveat_Encode :: "testCaveat \<Rightarrow> failure + msgpack" where
  "testCaveat_Encode (testCaveatParentResource i p) = Inr (MArray [MUint i, MUint (ucast p)])"
| "testCaveat_Encode (testCaveatChildResource i p) = Inr (MArray [MUint i, MUint (ucast p)])"

fun testCaveat_Decode :: "testCaveat \<Rightarrow> msgpack \<Rightarrow> failure + testCaveat" where
  "testCaveat_Decode (testCaveatParentResource i0 p0) v =
     (case v of
        MArray [MUint i, MUint p] \<Rightarrow> Inr (testCaveatParentResource i (ucast p))
      | _ \<Rightarrow> Inl (errors_New ''msgpack: cannot decode into testCaveatParentResource''))"
| "testCaveat_Decode (testCaveatChildResource i0 p0) v =
     (case v of
        MArray [MUint i, MUint p] \<Rightarrow> Inr (testCaveatChildResource i (ucast p))
      | _ \<Rightarrow> Inl (errors_New ''msgpack: cannot decode into testCaveatChildResource''))"

definition json_uint64 :: "json \<Rightarrow> 64 word \<Rightarrow> failure + 64 word" where
  "json_uint64 j dflt =
     (case j of
        JNumber n \<Rightarrow>
          if 0 \<le> n \<and> n < 2 ^ 64 then Inr (word_of_int n)
          else Inl (errors_New ''json: cannot unmarshal number into uint64'')
      | JNull \<Rightarrow> Inr dflt
      | _ \<Rightarrow> Inl (errors_New ''json: cannot unmarshal into uint64''))"

fun testCaveat_Marshal :: "testCaveat \<Rightarrow> failure + json" where
  "testCaveat_Marshal (testCaveatParentResource i p) =
     Inr (JObject [(''ID'', JNumber (uint i)), (''Permission'', JNumber (uint p))])"
| "testCaveat_Marshal (testCaveatChildResource i p) =
     Inr (JObject [(''ID'', JNumber (uint i)), (''Permission'', JNumber (uint p))])"

definition testCaveat_fields :: "64 word \<Rightarrow> Action \<Rightarrow> json \<Rightarrow> failure + 64 word \<times> Action" where
  "testCaveat_fields i0 p0 b =
     (case b of
        JObject kvs \<Rightarrow>
          (case json_uint64 (json_field kvs ''ID'') i0 of
             Inl e \<Rightarrow> Inl e
           | Inr i \<Rightarrow>
               (case json_Action (json_field kvs ''Permission'') p0 of
                  Inl e \<Rightarrow> Inl e
                | Inr p \<Rightarrow> Inr (i, p)))
      | _ \<Rightarrow> Inl (errors_New ''json: cannot unmarshal into struct''))"

fun testCaveat_Unmarshal :: "testCaveat \<Rightarrow> json \<Rightarrow> failure + testCaveat" where
  "testCaveat_Unmarshal (testCaveatParentResource i0 p0) b =
     (case testCaveat_fields i0 p0 b of
        Inl e \<Rightarrow> Inl e
      | Inr (i, p) \<Rightarrow> Inr (testCaveatParentResource i p))"
| "testCaveat_Unmarshal (testCaveatChildResource i0 p0) b =
     (case testCaveat_fields i0 p0 b of
        Inl e \<Rightarrow> Inl e
      | Inr (i, p) \<Rightarrow> Inr (testCaveatChildResource i p))"

definition testCaveats :: "CaveatTypes \<Rightarrow> testCaveat UserCaveat" where
  "testCaveats K =
     \<lparr>userCaveatType = testCaveat_CaveatType K,
      userProhibits = testCaveat_Prohibits,
      userIsAttestation = (\<lambda>c. False),
      userEncode = testCaveat_Encode,
      userDecode = testCaveat_Decode,
      userMarshal = testCaveat_Marshal,
      userUnmarshal = testCaveat_Unmarshal\<rparr>"

definition init_tests :: "CaveatTypes \<Rightarrow> testCaveat registry" where
  "init_tests K =
     [(''ParentResource'', cavTestParentResource K, User (testCaveatParentResource 0 0)),
      (''ChildResource'', cavTestChildResource K, User (testCaveatChildResource 0 0))]"

section \<open>Macaroons\<close>

text \<open>
  Modelled from the spec: the macaroon, its \<open>Add\<close>, \<open>Encode\<close>, \<open>Decode\<close> and
  verification, none of which is among the sources. The definitions follow sections 3,
  4.2, 4.5 and 4.7 of the specification. The cryptographic primitives are parameters:
  \<open>hmac\<close> is HMAC-SHA256 of an encoded value under a key, \<open>unseal\<close> opens a sealed
  text, \<open>sha256\<close> is the digest.
\<close>

record Nonce =
  KID :: bytes
  Rnd :: bytes
  Proof :: bool

record 'u Macaroon =
  Nonce :: Nonce
  Location :: string
  UnsafeCaveats :: "'u caveat list"
  Tail :: bytes

record Crypto =
  hmac :: "bytes \<Rightarrow> msgpack \<Rightarrow> bytes"
  unseal :: "bytes \<Rightarrow> bytes \<Rightarrow> bytes option"
  sha256 :: "bytes \<Rightarrow> bytes"

definition encode_nonce :: "Nonce \<Rightarrow> msgpack" where
  "encode_nonce n = MArray [MBin (KID n), MBin (Rnd n), MBool (Proof n)]"

definition decode_nonce :: "msgpack \<Rightarrow> failure + Nonce" where
  "decode_nonce v =
     (case v of
        MArray [MBin k, MBin r, MBool p] \<Rightarrow> Inr \<lparr>KID = k, Rnd = r, Proof = p\<rparr>
      | _ \<Rightarrow> Inl (errors_New ''msgpack: cannot decode into Nonce''))"

definition derive :: "Crypto \<Rightarrow> bytes \<Rightarrow> Nonce \<Rightarrow> bytes" where
  "derive C signing_key n = hmac C signing_key (encode_nonce n)"

text \<open>
  \<open>step\<close> is one link of the signature chain, \<open>HMAC(K, encode(c))\<close>; the encoding of a
  caveat is taken to be its binary form with its type code.
\<close>

definition step :: "Crypto \<Rightarrow> CaveatTypes \<Rightarrow> 'u UserCaveat \<Rightarrow> bytes \<Rightarrow> 'u caveat \<Rightarrow> failure + bytes" where
  "step C K U k c =
     (case EncodeMsgpack K U [c] of
        Inl e \<Rightarrow> Inl e
      | Inr buf \<Rightarrow> Inr (hmac C k buf))"

text \<open>
  \<open>Add\<close>: a caveat equal to one already in \<open>UnsafeCaveats\<close> is skipped; any other is
  appended, and the tail advances by one step.
\<close>

fun Add :: "Crypto \<Rightarrow> CaveatTypes \<Rightarrow> 'u UserCaveat \<Rightarrow> 'u Macaroon \<Rightarrow> 'u caveat list \<Rightarrow> failure + 'u Macaroon" where
  "Add C K U m [] = Inr m"
| "Add C K U m (c # cs) =
     (if c \<in> set (UnsafeCaveats m) then Add C K U m cs
      else (case step C K U (Tail m) c of
              Inl e \<Rightarrow> Inl e
            | Inr t \<Rightarrow> Add C K U (m\<lparr>UnsafeCaveats := UnsafeCaveats m @ [c], Tail := t\<rparr>) cs))"


definition Decode :: "'u UserCaveat \<Rightarrow> 'u registry \<Rightarrow> msgpack \<Rightarrow> failure + 'u Macaroon" where
  "Decode U reg buf =
     (case buf of
        MArray [n, MStr loc, cavs, MBin t] \<Rightarrow>
          (case decode_nonce n of
             Inl e \<Rightarrow> Inl e
           | Inr nonce \<Rightarrow>
               (case DecodeCaveats U reg cavs of
                  Inl e \<Rightarrow> Inl e
                | Inr cs \<Rightarrow> Inr \<lparr>Nonce = nonce, Location = loc, UnsafeCaveats = cs, Tail = t\<rparr>))
      | _ \<Rightarrow> Inl (errors_New ''msgpack: cannot decode into Macaroon''))"

text \<open>
  Verification, step 2: the chain over the caveats in order. At a \<open>Caveat3P\<close> the key
  reached so far unseals its \<open>VID\<close> into the key of the discharge, kept with the
  location; then the key advances by the caveat's step.
\<close>

fun chain :: "Crypto \<Rightarrow> CaveatTypes \<Rightarrow> 'u UserCaveat \<Rightarrow> bytes \<Rightarrow> (string \<times> bytes) list \<Rightarrow> 'u caveat list
    \<Rightarrow> failure + bytes \<times> (string \<times> bytes) list" where
  "chain C K U expected tickets [] = Inr (expected, tickets)"
| "chain C K U expected tickets (c # cs) =
     (case (case c of
              Caveat3P loc vid cid r \<Rightarrow>
                (case unseal C expected vid of
                   None \<Rightarrow> Inl ErrBadSignature
                 | Some RN \<Rightarrow> Inr (tickets @ [(loc, RN)]))
            | _ \<Rightarrow> Inr tickets) of
        Inl e \<Rightarrow> Inl e
      | Inr tickets' \<Rightarrow>
          (case step C K U expected c of
             Inl e \<Rightarrow> Inl e
           | Inr expected' \<Rightarrow> chain C K U expected' tickets' cs))"

text \<open>\<open>bytes.HasPrefix\<close>: the identifier starts with the prefix.\<close>

definition HasPrefix :: "bytes \<Rightarrow> bytes \<Rightarrow> bool" where
  "HasPrefix s p = (length p \<le> length s \<and> take (length p) s = p)"

text \<open>
  Step 4, and the same check of a discharge in step 5: every \<open>BindToParentToken\<close> caveat
  needs an identifier among those supplied that starts with its prefix.
\<close>

fun bound :: "'u caveat list \<Rightarrow> bytes list \<Rightarrow> bool" where
  "bound [] ids = True"
| "bound (BindToParentToken p # cs) ids = (list_ex (\<lambda>tbid. HasPrefix tbid p) ids \<and> bound cs ids)"
| "bound (c # cs) ids = bound cs ids"

fun restricts :: "'u caveat \<Rightarrow> bool" where
  "restricts (Caveat3P loc vid cid r) = False"
| "restricts (BindToParentToken p) = False"
| "restricts c = True"

text \<open>
  Step 5, for one discharge: it takes the first open ticket of its location, its chain
  is recomputed from the ticket's key, and its tail must be the plain chain or the chain
  bound to the tail of the root, one of the two. A discharge that matches no open ticket
  is ignored. The result is the tickets still open and the caveats collected so far.
\<close>

fun take_ticket :: "string \<Rightarrow> (string \<times> bytes) list \<Rightarrow> (bytes \<times> (string \<times> bytes) list) option" where
  "take_ticket loc [] = None"
| "take_ticket loc ((l, RN) # ts) =
     (if l = loc then Some (RN, ts)
      else (case take_ticket loc ts of
              None \<Rightarrow> None
            | Some (RN', ts') \<Rightarrow> Some (RN', (l, RN) # ts')))"

definition verify_discharge :: "Crypto \<Rightarrow> CaveatTypes \<Rightarrow> 'u UserCaveat \<Rightarrow> bytes \<Rightarrow> 'u Macaroon
    \<Rightarrow> (string \<times> bytes) list \<times> 'u caveat list \<Rightarrow> failure + (string \<times> bytes) list \<times> 'u caveat list" where
  "verify_discharge C K U root_tail d st =
     (case take_ticket (Location d) (fst st) of
        None \<Rightarrow> Inr st
      | Some (RN, tickets) \<Rightarrow>
          (case chain C K U (derive C RN (Nonce d)) [] (UnsafeCaveats d) of
             Inl e \<Rightarrow> Inl e
           | Inr (plain, inner) \<Rightarrow>
               if (plain = Tail d) = (hmac C root_tail (MBin plain) = Tail d) then Inl ErrBadSignature
               else if \<not> bound (UnsafeCaveats d) [sha256 C root_tail]
               then Inl (errors_New ''discharge bound to another token'')
               else Inr (tickets, snd st @ filter restricts (UnsafeCaveats d))))"

fun verify_discharges :: "Crypto \<Rightarrow> CaveatTypes \<Rightarrow> 'u UserCaveat \<Rightarrow> 'u registry \<Rightarrow> bytes \<Rightarrow> msgpack list
    \<Rightarrow> (string \<times> bytes) list \<times> 'u caveat list \<Rightarrow> failure + (string \<times> bytes) list \<times> 'u caveat list" where
  "verify_discharges C K U reg root_tail [] st = Inr st"
| "verify_discharges C K U reg root_tail (buf # bufs) st =
     (case Decode U reg buf of
        Inl e \<Rightarrow> Inl e
      | Inr d \<Rightarrow>
          (case verify_discharge C K U root_tail d st of
             Inl e \<Rightarrow> Inl e
           | Inr st' \<Rightarrow> verify_discharges C K U reg root_tail bufs st'))"

text \<open>
  \<open>Verify\<close>, steps 1 to 6. The specification names no error for a failed binding
  check; the model returns an error of its own there.
\<close>

definition Verify :: "Crypto \<Rightarrow> CaveatTypes \<Rightarrow> 'u UserCaveat \<Rightarrow> 'u registry \<Rightarrow> 'u Macaroon
    \<Rightarrow> bytes \<Rightarrow> msgpack list \<Rightarrow> bytes list \<Rightarrow> failure + 'u caveat list" where
  "Verify C K U reg root signing_key discharges token_binding_ids =
     (case chain C K U (derive C signing_key (Nonce root)) [] (UnsafeCaveats root) of
        Inl e \<Rightarrow> Inl e
      | Inr (expected, tickets) \<Rightarrow>
          if expected \<noteq> Tail root then Inl ErrBadSignature
          else if \<not> bound (UnsafeCaveats root) token_binding_ids
          then Inl (errors_New ''token binding'')
          else (case verify_discharges C K U reg (Tail root) discharges
                       (tickets, filter restricts (UnsafeCaveats root)) of
                  Inl e \<Rightarrow> Inl e
                | Inr (open_tickets, cavs) \<Rightarrow>
                    if open_tickets \<noteq> [] then Inl ErrUndischarged else Inr cavs))"

section \<open>Serialized caveats and registered types\<close>

text \<open>
  Predicates of the statements below. \<open>clear_rn\<close> empties the field \<open>rn\<close> of every
  \<open>Caveat3P\<close>, also inside \<open>IfPresent\<close>. \<open>zero_for U z c\<close>: \<open>z\<close> is a zero value of the
  type of \<open>c\<close> (of a \<open>Caveat3P\<close>, the field that the decoders leave alone is empty; two
  values of a client's type are of one Go type when their type codes agree).
  \<open>registered K U reg c\<close>: the type of \<open>c\<close>, and of every caveat inside it, is in the
  registry, that is, its code leads to a zero value of the type, and to a name that
  leads back to the code. \<open>user_codec_ok U\<close>: the encoders write every value of the
  client's type, and the decoders read it back into a zero value of its type.
\<close>

fun clear_rn :: "'u caveat \<Rightarrow> 'u caveat" where
  "clear_rn (Caveat3P l v c r) = Caveat3P l v c []"
| "clear_rn (IfPresent ifs els) = IfPresent (map clear_rn ifs) els"
| "clear_rn c = c"





section \<open>Values for the examples\<close>

text \<open>
  The examples that follow the theorems run the definitions on these values: a choice
  of type codes, the caveats of the tests under these codes, the registry after the
  \<open>init\<close> functions of \<open>caveats.go\<close> and of the tests have run, stand-ins for the
  cryptographic primitives (the chain puts a byte in front of the key), a fresh macaroon
  without caveats, and a root macaroon bound to the prefix \<open>de ad\<close> whose tail is the
  chain from the key \<open>[5]\<close>.
\<close>

definition example_types :: CaveatTypes where
  "example_types =
     \<lparr>Cav3P = 10, CavIfPresent = 12, CavValidityWindow = 3, CavBindToParentToken = 11,
      CavMinUserDefined = 281474976710656\<rparr>"

definition example_caveats :: "testCaveat UserCaveat" where
  "example_caveats = testCaveats example_types"

definition example_registry :: "testCaveat registry" where
  "example_registry = init_caveats example_types @ init_tests example_types"

definition example_crypto :: Crypto where
  "example_crypto = \<lparr>hmac = (\<lambda>k v. 1 # k), unseal = (\<lambda>k c. Some c), sha256 = (\<lambda>b. b)\<rparr>"

definition example_macaroon :: "testCaveat Macaroon" where
  "example_macaroon =
     \<lparr>Nonce = \<lparr>KID = [107, 105, 100], Rnd = [0, 1, 2, 3, 4, 5, 6, 7, 8, 9, 10, 11, 12, 13, 14, 15], Proof = False\<rparr>,
      Location = ''http://api'', UnsafeCaveats = [], Tail = [7]\<rparr>"

definition example_root :: "testCaveat Macaroon" where
  "example_root =
     \<lparr>Nonce = \<lparr>KID = [107, 105, 100], Rnd = [0, 1, 2, 3, 4, 5, 6, 7, 8, 9, 10, 11, 12, 13, 14, 15], Proof = False\<rparr>,
      Location = ''loc'', UnsafeCaveats = [BindToParentToken [222, 173]], Tail = [1, 1, 5]\<rparr>"

lemmas examples =
  example_types_def example_caveats_def example_registry_def example_crypto_def
  example_macaroon_def example_root_def

section \<open>Validation accumulates\<close>

lemma validateAccess_loop_concat:
  "validateAccess_loop U merr cs f =
     merr @ concat (map (\<lambda>c. Prohibits U c f) (filter (\<lambda>c. \<not> IsAttestation U c) cs))"
  by (induction cs arbitrary: merr) (simp_all add: appendErrs_def)

lemma validateAccess_concat:
  "validateAccess U cs f =
     concat (map (\<lambda>c. Prohibits U c f) (filter (\<lambda>c. \<not> IsAttestation U c) cs))"
  by (simp add: validateAccess_def validateAccess_loop_concat)

lemma Validate_loop_concat:
  "Validate_loop U merr cs accesses =
     merr @ concat (map (\<lambda>f. if Access_Validate f \<noteq> [] then Access_Validate f
                               else validateAccess U cs f) accesses)"
  by (induction accesses arbitrary: merr) (simp_all add: appendErrs_def Let_def)

lemma Validate_concat:
  "Validate U cs accesses =
     concat (map (\<lambda>f. if Access_Validate f \<noteq> [] then Access_Validate f
                        else validateAccess U cs f) accesses)"
  by (simp add: Validate_def Validate_loop_concat)



text \<open>
  C1, as amended. \<open>Validate\<close> returns the concatenation, over the accesses in order, of
  what each access contributes: the error of \<open>access.Validate()\<close> alone when there is
  one, and otherwise the results of \<open>Prohibits(access)\<close> of every caveat whose
  \<open>IsAttestation()\<close> is false, in caveat order. The result is \<open>Ok\<close> exactly when every
  check passed, and no failure stops the caveats or the accesses that follow it.
\<close>

theorem Validate_accumulates:
  "Validate U cs accesses =
     concat (map (\<lambda>access.
        if Access_Validate access \<noteq> [] then Access_Validate access
        else concat (map (\<lambda>caveat. Prohibits U caveat access)
                         (filter (\<lambda>caveat. \<not> IsAttestation U caveat) cs))) accesses)"
  by (simp add: Validate_concat validateAccess_concat cong: if_cong)

text \<open>
  The theorem at two accesses and three caveats: the first access fails its own
  \<open>Validate()\<close> and contributes that error only; the second passes it, and the two
  caveats that prohibit it are both reported.
\<close>

theorem Validate_accumulates_witness:
  "Validate example_caveats
      [User (testCaveatParentResource 7 1), Caveat3P ''loc'' [] [] [], User (testCaveatChildResource 8 3)]
      [TestAccess \<lparr>action = 1, parentResource = None, childResource = Some 7, now = Time 5 0\<rparr> (Time 5 0),
       TestAccess \<lparr>action = 1, parentResource = Some 7, childResource = Some 7, now = Time 5 0\<rparr> (Time 5 0)]
   = [ErrResourceUnspecified,
      Errorf ''%w (3rd party caveat)'' ErrBadCaveat,
      Errorf ''%w resource'' ErrUnauthorizedForResource]"
  using Validate_accumulates [of "example_caveats"
      "[User (testCaveatParentResource 7 1), Caveat3P ''loc'' [] [] [], User (testCaveatChildResource 8 3)]"
      "[TestAccess \<lparr>action = 1, parentResource = None, childResource = Some 7, now = Time 5 0\<rparr> (Time 5 0),
       TestAccess \<lparr>action = 1, parentResource = Some 7, childResource = Some 7, now = Time 5 0\<rparr> (Time 5 0)]"]
  by (simp add: examples testCaveats_def testAccess_Validate_def IsSubsetOf_def)

text \<open>
  C1, as the claim states it, evaluates the caveats of every access, also of one whose
  \<open>Validate()\<close> failed (\<open>Validate_as_claimed\<close>). The source continues with the next
  access after such a failure: on an access that names a child resource and no parent,
  and a set holding a third-party caveat, it returns the error of the access alone.
\<close>

theorem Validate_claim_counterexample:
  "Validate example_caveats
      [Caveat3P ''loc'' [] [] []]
      [TestAccess \<lparr>action = 1, parentResource = None, childResource = Some 7, now = Time 5 0\<rparr> (Time 5 0)]
   \<noteq> Validate_as_claimed example_caveats
      [Caveat3P ''loc'' [] [] []]
      [TestAccess \<lparr>action = 1, parentResource = None, childResource = Some 7, now = Time 5 0\<rparr> (Time 5 0)]"
  by (simp add: examples Validate_def Validate_as_claimed_def testAccess_Validate_def appendErrs_def)

section \<open>\<open>IfPresent\<close>\<close>




section \<open>\<open>ValidityWindow\<close>\<close>



section \<open>\<open>Caveat3P\<close>\<close>



section \<open>The codec of caveat sets\<close>

subsection \<open>What the encoders leave out\<close>

lemma CaveatType_clear_rn [simp]: "CaveatType K U (clear_rn c) = CaveatType K U c"
  by (cases c) simp_all


lemma encode_clear_rn:
  "msgpack_Encode K U (clear_rn c) = msgpack_Encode K U c"
  "EncodeMsgpack K U (map clear_rn cs) = EncodeMsgpack K U cs"
  "EncodeMsgpack_loop K U (map clear_rn cs) = EncodeMsgpack_loop K U cs"
  by (induction K U c and K U cs and K U cs rule: msgpack_Encode_EncodeMsgpack_EncodeMsgpack_loop.induct)
     (auto split: sum.splits)

lemma marshal_clear_rn:
  "json_Marshal K U reg (clear_rn c) = json_Marshal K U reg c"
  "MarshalJSON K U reg (map clear_rn cs) = MarshalJSON K U reg cs"
  "MarshalJSON_loop K U reg (map clear_rn cs) = MarshalJSON_loop K U reg cs"
  by (induction K U reg c and K U reg cs and K U reg cs rule: json_Marshal_MarshalJSON_MarshalJSON_loop.induct)
     (auto split: sum.splits simp: Let_def)

text \<open>
  C10. The key \<open>rn\<close> of a \<open>Caveat3P\<close> is in no encoding: two caveat sets that differ
  only in the \<open>rn\<close> of one \<open>Caveat3P\<close> have the same binary form and the same JSON
  form, and emptying every \<open>rn\<close> of a caveat set, also inside \<open>IfPresent\<close>, changes
  neither form.
\<close>

theorem rn_not_serialized:
  "EncodeMsgpack K U (pre @ Caveat3P l v c r1 # post) = EncodeMsgpack K U (pre @ Caveat3P l v c r2 # post)
   \<and> MarshalJSON K U reg (pre @ Caveat3P l v c r1 # post) = MarshalJSON K U reg (pre @ Caveat3P l v c r2 # post)
   \<and> EncodeMsgpack K U (map clear_rn cs) = EncodeMsgpack K U cs
   \<and> MarshalJSON K U reg (map clear_rn cs) = MarshalJSON K U reg cs"
proof -
  have m: "map clear_rn (pre @ Caveat3P l v c r1 # post) = map clear_rn (pre @ Caveat3P l v c r2 # post)"
    by simp
  have "EncodeMsgpack K U (pre @ Caveat3P l v c r1 # post)
          = EncodeMsgpack K U (map clear_rn (pre @ Caveat3P l v c r1 # post))"
    by (simp only: encode_clear_rn)
  also have "\<dots> = EncodeMsgpack K U (pre @ Caveat3P l v c r2 # post)"
    by (simp only: m encode_clear_rn)
  finally have e: "EncodeMsgpack K U (pre @ Caveat3P l v c r1 # post)
          = EncodeMsgpack K U (pre @ Caveat3P l v c r2 # post)" .
  have "MarshalJSON K U reg (pre @ Caveat3P l v c r1 # post)
          = MarshalJSON K U reg (map clear_rn (pre @ Caveat3P l v c r1 # post))"
    by (simp only: marshal_clear_rn)
  also have "\<dots> = MarshalJSON K U reg (pre @ Caveat3P l v c r2 # post)"
    by (simp only: m marshal_clear_rn)
  finally show ?thesis using e by (simp only: encode_clear_rn marshal_clear_rn simp_thms)
qed

subsection \<open>Decoding what was encoded\<close>



lemma go_rem_even: "go_rem (int n) 2 = 0 \<longleftrightarrow> even n"
proof -
  have "go_rem (int n) 2 = int n - 2 * (int n div 2)"
    by (simp add: go_rem_def sgn_if)
  also have "\<dots> = int n mod 2" by (simp add: minus_mult_div_eq_mod)
  finally show ?thesis by presburger
qed











subsection \<open>The binary form\<close>

lemma EncodeMsgpack_loop_pairs:
  "map (msgpack_Encode K U) cs = map Inr bs \<Longrightarrow>
     EncodeMsgpack_loop K U cs = Inr (concat (map2 (\<lambda>c b. [MUint (CaveatType K U c), b]) cs bs))"
proof (induction cs arbitrary: bs)
  case Nil
  then show ?case by simp
next
  case (Cons c cs)
  then obtain b bs' where "bs = b # bs'" by (cases bs) auto
  with Cons show ?case by simp
qed

lemma EncodeMsgpack_loop_length:
  "EncodeMsgpack_loop K U cs = Inr xs \<Longrightarrow> length xs = 2 * length cs"
  by (induction cs arbitrary: xs) (auto split: sum.splits)

lemma DecodeMsgpack_odd:
  "odd (length xs) \<Longrightarrow> DecodeMsgpack U reg c (MArray xs) = (c, [errors_New ''bad caveat container''])"
  by (simp add: DecodeArrayLen_def go_rem_even)

lemma DecodeMsgpack_even:
  "even (length xs) \<Longrightarrow> DecodeMsgpack U reg c (MArray xs) = DecodeMsgpack_loop U reg c xs"
  by (simp add: DecodeArrayLen_def go_rem_even)

text \<open>
  C3. The binary form of a set of \<open>n\<close> caveats is one array of \<open>2 * n\<close> elements: for
  each caveat in order its type code, an unsigned integer, and then its encoded value.
  Decoding an array of odd length fails with "bad caveat container". Decoding an array
  of even length goes through it pair by pair: the type code gives, through
  \<open>typeToCaveat\<close>, the zero value of the declared type, the value that follows is
  decoded into it, and the caveat is appended; the first failure ends the decoding.
\<close>

theorem CaveatSet_binary_form:
  "(map (msgpack_Encode K U) cs = map Inr bs \<longrightarrow>
      EncodeMsgpack K U cs = Inr (MArray (concat (map2 (\<lambda>c b. [MUint (CaveatType K U c), b]) cs bs))))
   \<and> (EncodeMsgpack K U cs = Inr v \<longrightarrow> DecodeArrayLen v = Inr (2 * int (length cs)))
   \<and> (odd (length xs) \<longrightarrow>
        DecodeMsgpack U reg c (MArray xs) = (c, [errors_New ''bad caveat container'']))
   \<and> DecodeMsgpack U reg c (MArray []) = (c, [])
   \<and> (even (length rest) \<longrightarrow>
        DecodeMsgpack U reg c (MArray (MUint t # b # rest)) =
          (case typeToCaveat reg t of
             Inl e \<Rightarrow> (c, [e])
           | Inr z \<Rightarrow>
               (case msgpack_Decode U reg z b of
                  Inl e \<Rightarrow> (c, [e])
                | Inr cav \<Rightarrow> DecodeMsgpack U reg (c @ [cav]) (MArray rest))))"
proof (intro conjI impI)
  assume "map (msgpack_Encode K U) cs = map Inr bs"
  then show "EncodeMsgpack K U cs = Inr (MArray (concat (map2 (\<lambda>c b. [MUint (CaveatType K U c), b]) cs bs)))"
    by (simp add: EncodeMsgpack_loop_pairs)
next
  assume "EncodeMsgpack K U cs = Inr v"
  then show "DecodeArrayLen v = Inr (2 * int (length cs))"
    by (auto split: sum.splits simp: DecodeArrayLen_def dest: EncodeMsgpack_loop_length)
next
  assume "odd (length xs)"
  then show "DecodeMsgpack U reg c (MArray xs) = (c, [errors_New ''bad caveat container''])"
    by (rule DecodeMsgpack_odd)
next
  show "DecodeMsgpack U reg c (MArray []) = (c, [])"
    by (simp add: DecodeArrayLen_def go_rem_def)
next
  assume e: "even (length rest)"
  have 1: "DecodeMsgpack U reg c (MArray (MUint t # b # rest)) = DecodeMsgpack_loop U reg c (MUint t # b # rest)"
    by (rule DecodeMsgpack_even) (simp add: e)
  have 2: "DecodeMsgpack U reg c' (MArray rest) = DecodeMsgpack_loop U reg c' rest" for c'
    by (rule DecodeMsgpack_even[OF e])
  show "DecodeMsgpack U reg c (MArray (MUint t # b # rest)) =
          (case typeToCaveat reg t of
             Inl e \<Rightarrow> (c, [e])
           | Inr z \<Rightarrow>
               (case msgpack_Decode U reg z b of
                  Inl e \<Rightarrow> (c, [e])
                | Inr cav \<Rightarrow> DecodeMsgpack U reg (c @ [cav]) (MArray rest)))"
    unfolding 1 2 by (simp add: DecodeUint_def split: sum.splits)
qed

text \<open>
  The theorem on the set of a \<open>ValidityWindow\<close> and a caveat of the tests, with the
  registrations of \<open>caveats.go\<close> and of the tests: the array has four elements, an array
  of three is refused, and the array of four decodes to the set.
\<close>

theorem CaveatSet_binary_form_witness:
  "map (msgpack_Encode example_types example_caveats) [ValidityWindow 100 200, User (testCaveatParentResource 123 1)]
      = map Inr [MArray [MInt 100, MInt 200], MArray [MUint 123, MUint 1]]
   \<and> EncodeMsgpack example_types example_caveats [ValidityWindow 100 200, User (testCaveatParentResource 123 1)]
      = Inr (MArray [MUint 3, MArray [MInt 100, MInt 200], MUint 281474976710656, MArray [MUint 123, MUint 1]])
   \<and> DecodeArrayLen (MArray [MUint 3, MArray [MInt 100, MInt 200], MUint 281474976710656, MArray [MUint 123, MUint 1]])
      = Inr (2 * int (length [ValidityWindow 100 200, User (testCaveatParentResource 123 1)]))
   \<and> odd (length [MUint 3, MArray [MInt 100, MInt 200], MUint 281474976710656])
   \<and> DecodeMsgpack example_caveats example_registry [] (MArray [MUint 3, MArray [MInt 100, MInt 200], MUint 281474976710656])
      = ([], [errors_New ''bad caveat container''])
   \<and> even (length [MUint 281474976710656, MArray [MUint 123, MUint 1]])
   \<and> DecodeMsgpack example_caveats example_registry [] (MArray [MUint 3, MArray [MInt 100, MInt 200], MUint 281474976710656, MArray [MUint 123, MUint 1]])
      = ([ValidityWindow 100 200, User (testCaveatParentResource 123 1)], [])"
  using CaveatSet_binary_form [where K = "example_types" and U = "example_caveats"
      and cs = "[ValidityWindow 100 200, User (testCaveatParentResource 123 1)]"
      and bs = "[MArray [MInt 100, MInt 200], MArray [MUint 123, MUint 1]]"
      and v = "MArray [MUint 3, MArray [MInt 100, MInt 200], MUint 281474976710656, MArray [MUint 123, MUint 1]]"
      and xs = "[MUint 3, MArray [MInt 100, MInt 200], MUint 281474976710656]"
      and reg = "example_registry" and c = "[]" and t = 3 and b = "MArray [MInt 100, MInt 200]"
      and rest = "[MUint 281474976710656, MArray [MUint 123, MUint 1]]"]
  by (simp add: examples testCaveats_def init_caveats_def init_tests_def typeToCaveat_def DecodeUint_def
        DecodeArrayLen_def go_rem_def cavTestParentResource_def cavTestChildResource_def)

subsection \<open>Types that are not registered\<close>

lemma typeToCaveat_unregistered:
  "t \<notin> set (map (fst \<circ> snd) reg) \<Longrightarrow> typeToCaveat reg t = Inl (Errorf ''%w, %d'' ErrUnregisteredCaveat)"
proof -
  assume "t \<notin> set (map (fst \<circ> snd) reg)"
  then have "find (\<lambda>r. fst (snd r) = t) reg = None"
    by (fastforce simp: find_None_iff image_iff)
  then show ?thesis by (simp add: typeToCaveat_def)
qed

lemma caveatTypeFromString_unknown:
  "s \<notin> set (map fst reg) \<Longrightarrow> caveatTypeFromString reg s = None"
proof -
  assume "s \<notin> set (map fst reg)"
  then have "find (\<lambda>r. fst r = s) reg = None"
    by (fastforce simp: find_None_iff image_iff)
  then show ?thesis by (simp add: caveatTypeFromString_def)
qed

lemma DecodeMsgpack_loop_unregistered:
  "i < length xs \<Longrightarrow> even i \<Longrightarrow> xs ! i = MUint t \<Longrightarrow> typeToCaveat reg t = Inl e \<Longrightarrow>
     snd (DecodeMsgpack_loop U reg c xs) \<noteq> []"
proof (induction xs arbitrary: i c rule: induct_list012)
  case 1
  then show ?case by simp
next
  case (2 x)
  then show ?case by simp
next
  case (3 tv bv rest)
  show ?case
  proof (cases i)
    case 0
    with "3.prems" show ?thesis by (simp add: DecodeUint_def)
  next
    case (Suc j)
    with "3.prems"(2) obtain k where k: "i = Suc (Suc k)"
      by (cases j) auto
    with "3.prems" have p: "k < length rest" "even k" "rest ! k = MUint t" by simp_all
    have "snd (DecodeMsgpack_loop U reg c' rest) \<noteq> []" for c'
      using "3.IH"(1)[OF p "3.prems"(4)] .
    then show ?thesis
      by (auto split: sum.splits)
  qed
qed

lemma json_Unmarshal_list_mem:
  "json_Unmarshal_list js = Inr jcs \<Longrightarrow> JObject kvs \<in> set js \<Longrightarrow> json_field kvs ''type'' = JString s \<Longrightarrow>
     \<exists>jc \<in> set jcs. Type jc = s"
proof (induction js arbitrary: jcs)
  case Nil
  then show ?case by simp
next
  case (Cons j js)
  then show ?case
    by (auto split: sum.splits simp: json_Unmarshal_jsonCaveat_def)
qed

lemma UnmarshalJSON_loop_unknown:
  "jc \<in> set jcs \<Longrightarrow> caveatTypeFromString reg (Type jc) = None \<Longrightarrow> isl (UnmarshalJSON_loop U reg jcs)"
  by (induction jcs) (auto split: sum.splits option.splits)

text \<open>
  C4. An input that names a type outside the registry is not decoded. When some type
  code position of the array (an even index) holds a code that is not registered,
  \<open>DecodeMsgpack\<close> returns an error and \<open>DecodeCaveats\<close> returns no caveat set. When some
  object of the JSON array has a \<open>type\<close> that is not a registered name, \<open>UnmarshalJSON\<close>
  returns an error.
\<close>

theorem unknown_type_fails_decode:
  "(i < length xs \<and> even i \<and> xs ! i = MUint t \<and> t \<notin> set (map (fst \<circ> snd) reg) \<longrightarrow>
      isl (DecodeCaveats U reg (MArray xs)) \<and> snd (DecodeMsgpack U reg c (MArray xs)) \<noteq> [])
   \<and> (JObject kvs \<in> set js \<and> json_field kvs ''type'' = JString s \<and> s \<notin> set (map fst reg) \<longrightarrow>
      isl (UnmarshalJSON U reg (JArray js)))"
proof (intro conjI impI)
  assume a: "i < length xs \<and> even i \<and> xs ! i = MUint t \<and> t \<notin> set (map (fst \<circ> snd) reg)"
  then have u: "typeToCaveat reg t = Inl (Errorf ''%w, %d'' ErrUnregisteredCaveat)"
    by (simp add: typeToCaveat_unregistered)
  have d: "snd (DecodeMsgpack U reg c' (MArray xs)) \<noteq> []" for c'
  proof (cases "even (length xs)")
    case True
    then have "DecodeMsgpack U reg c' (MArray xs) = DecodeMsgpack_loop U reg c' xs"
      by (rule DecodeMsgpack_even)
    moreover from a have "i < length xs" "even i" "xs ! i = MUint t" by simp_all
    then have "snd (DecodeMsgpack_loop U reg c' xs) \<noteq> []"
      using u by (rule DecodeMsgpack_loop_unregistered)
    ultimately show ?thesis by (simp del: DecodeMsgpack.simps)
  next
    case False
    with DecodeMsgpack_odd[of xs U reg c'] show ?thesis by (simp del: DecodeMsgpack.simps)
  qed
  from d[of c] show "snd (DecodeMsgpack U reg c (MArray xs)) \<noteq> []" .
  from d[of "[]"] show "isl (DecodeCaveats U reg (MArray xs))"
    unfolding DecodeCaveats_def
    by (cases "DecodeMsgpack U reg [] (MArray xs)") (auto split: list.splits)
next
  assume a: "JObject kvs \<in> set js \<and> json_field kvs ''type'' = JString s \<and> s \<notin> set (map fst reg)"
  then have n: "caveatTypeFromString reg s = None"
    by (simp add: caveatTypeFromString_unknown)
  show "isl (UnmarshalJSON U reg (JArray js))"
  proof (cases "json_Unmarshal_list js")
    case (Inl e)
    then show ?thesis by (simp add: json_Unmarshal_jsonCaveats_def)
  next
    case (Inr jcs)
    with a json_Unmarshal_list_mem[OF Inr] obtain jc where "jc \<in> set jcs" "Type jc = s"
      by blast
    with n have "isl (UnmarshalJSON_loop U reg jcs)"
      by (auto intro: UnmarshalJSON_loop_unknown)
    with Inr show ?thesis by (simp add: json_Unmarshal_jsonCaveats_def)
  qed
qed

text \<open>
  The theorem on an array whose second type code, 999, is not registered, and on a JSON
  array with the type name \<open>Nope\<close>: both are refused, though the first pair of the
  array alone decodes.
\<close>

theorem unknown_type_fails_decode_witness:
  "(2 :: nat) < length [MUint 3, MArray [MInt 1, MInt 2], MUint 999, MNil]
   \<and> even (2 :: nat)
   \<and> [MUint 3, MArray [MInt 1, MInt 2], MUint 999, MNil] ! 2 = MUint 999
   \<and> 999 \<notin> set (map (fst \<circ> snd) example_registry)
   \<and> isl (DecodeCaveats example_caveats example_registry (MArray [MUint 3, MArray [MInt 1, MInt 2], MUint 999, MNil]))
   \<and> DecodeCaveats example_caveats example_registry (MArray [MUint 3, MArray [MInt 1, MInt 2]]) = Inr [ValidityWindow 1 2]
   \<and> JObject [(''type'', JString ''Nope''), (''body'', JNull)]
        \<in> set [JObject [(''type'', JString ''Nope''), (''body'', JNull)]]
   \<and> json_field [(''type'', JString ''Nope''), (''body'', JNull)] ''type'' = JString ''Nope''
   \<and> ''Nope'' \<notin> set (map fst example_registry)
   \<and> isl (UnmarshalJSON example_caveats example_registry (JArray [JObject [(''type'', JString ''Nope''), (''body'', JNull)]]))"
  using unknown_type_fails_decode [where i = 2 and xs = "[MUint 3, MArray [MInt 1, MInt 2], MUint 999, MNil]"
      and t = 999 and reg = "example_registry" and U = "example_caveats" and c = "[]"
      and kvs = "[(''type'', JString ''Nope''), (''body'', JNull)]"
      and js = "[JObject [(''type'', JString ''Nope''), (''body'', JNull)]]" and s = "''Nope''"]
  by (simp add: examples testCaveats_def init_caveats_def init_tests_def typeToCaveat_def DecodeUint_def
        DecodeArrayLen_def go_rem_def cavTestParentResource_def cavTestChildResource_def
        DecodeCaveats_def json_field_def)

subsection \<open>Round trips\<close>





section \<open>Macaroons: \<open>Add\<close> and verification\<close>

text \<open>
  C7. \<open>Add\<close> of a caveat equal to one already in the list returns the macaroon as it
  is. \<open>Add\<close> of a caveat that differs from every caveat in the list, in whatever field,
  appends it at the end and advances the tail. So adding the same caveat a second time
  changes nothing: the list after \<open>m.Add(c).Add(c)\<close> is the list after \<open>m.Add(c)\<close>.
  Equality is equality of values, for every type of caveat.
\<close>

theorem Add_dedup:
  "(c \<in> set (UnsafeCaveats m) \<longrightarrow> Add C K U m [c] = Inr m)
   \<and> (c \<notin> set (UnsafeCaveats m) \<and> step C K U (Tail m) c = Inr t \<longrightarrow>
        Add C K U m [c] = Inr (m\<lparr>UnsafeCaveats := UnsafeCaveats m @ [c], Tail := t\<rparr>))
   \<and> (Add C K U m [c] = Inr m1 \<longrightarrow>
        Add C K U m1 [c] = Inr m1
        \<and> UnsafeCaveats m1 = (if c \<in> set (UnsafeCaveats m) then UnsafeCaveats m else UnsafeCaveats m @ [c]))"
  by (auto split: sum.splits if_splits)

text \<open>
  The additions of \<open>TestDuplicateCaveats\<close>: the same caveat twice, a caveat that differs
  in one bit of its permission, and one call with the same new caveat twice.
\<close>

theorem Add_dedup_witness:
  "User (testCaveatParentResource 123 31) \<notin> set (UnsafeCaveats example_macaroon)
   \<and> step example_crypto example_types example_caveats (Tail example_macaroon) (User (testCaveatParentResource 123 31)) = Inr [1, 7]
   \<and> Add example_crypto example_types example_caveats example_macaroon [User (testCaveatParentResource 123 31)]
        = Inr (example_macaroon\<lparr>UnsafeCaveats := [User (testCaveatParentResource 123 31)], Tail := [1, 7]\<rparr>)
   \<and> Add example_crypto example_types example_caveats (example_macaroon\<lparr>UnsafeCaveats := [User (testCaveatParentResource 123 31)], Tail := [1, 7]\<rparr>)
        [User (testCaveatParentResource 123 31)]
        = Inr (example_macaroon\<lparr>UnsafeCaveats := [User (testCaveatParentResource 123 31)], Tail := [1, 7]\<rparr>)
   \<and> Add example_crypto example_types example_caveats (example_macaroon\<lparr>UnsafeCaveats := [User (testCaveatParentResource 123 31)], Tail := [1, 7]\<rparr>)
        [User (testCaveatParentResource 123 30)]
        = Inr (example_macaroon\<lparr>UnsafeCaveats := [User (testCaveatParentResource 123 31), User (testCaveatParentResource 123 30)], Tail := [1, 1, 7]\<rparr>)
   \<and> Add example_crypto example_types example_caveats (example_macaroon\<lparr>UnsafeCaveats := [User (testCaveatParentResource 123 31)], Tail := [1, 7]\<rparr>)
        [User (testCaveatParentResource 345 31), User (testCaveatParentResource 345 31)]
        = Inr (example_macaroon\<lparr>UnsafeCaveats := [User (testCaveatParentResource 123 31), User (testCaveatParentResource 345 31)], Tail := [1, 1, 7]\<rparr>)"
  using Add_dedup [where C = "example_crypto" and K = "example_types" and U = "example_caveats" and m = "example_macaroon"
      and c = "User (testCaveatParentResource 123 31)" and t = "[1, 7]"
      and ?m1.0 = "example_macaroon\<lparr>UnsafeCaveats := [User (testCaveatParentResource 123 31)], Tail := [1, 7]\<rparr>"]
  by (simp add: examples step_def testCaveats_def)

lemma bound_mem:
  "bound cs ids \<Longrightarrow> BindToParentToken p \<in> set cs \<Longrightarrow> \<exists>tbid \<in> set ids. HasPrefix tbid p"
  by (induction cs ids rule: bound.induct) (auto simp: list_ex_iff)

lemma bound_Nil:
  "BindToParentToken p \<in> set cs \<Longrightarrow> \<not> bound cs []"
  by (induction cs "[] :: bytes list" rule: bound.induct) auto

text \<open>
  C8. When verification of a root macaroon succeeds, every \<open>BindToParentToken\<close> caveat
  of the root has, among the token binding ids supplied, one that starts with its
  prefix. With no token binding id, a root that carries a \<open>BindToParentToken\<close> caveat
  does not verify. The empty prefix matches every id, and a prefix longer than an id
  does not match it.
\<close>

theorem Verify_requires_token_binding:
  "(Verify C K U reg root signing_key discharges token_binding_ids = Inr cavs
      \<and> BindToParentToken p \<in> set (UnsafeCaveats root) \<longrightarrow>
        (\<exists>tbid \<in> set token_binding_ids. HasPrefix tbid p))
   \<and> (BindToParentToken p \<in> set (UnsafeCaveats root) \<longrightarrow>
        isl (Verify C K U reg root signing_key discharges []))
   \<and> HasPrefix tbid []
   \<and> (length tbid < length p \<longrightarrow> \<not> HasPrefix tbid p)"
proof (intro conjI impI)
  assume a: "Verify C K U reg root signing_key discharges token_binding_ids = Inr cavs
      \<and> BindToParentToken p \<in> set (UnsafeCaveats root)"
  then have "bound (UnsafeCaveats root) token_binding_ids"
    unfolding Verify_def by (auto split: sum.splits if_splits prod.splits)
  with a show "\<exists>tbid \<in> set token_binding_ids. HasPrefix tbid p"
    by (auto dest: bound_mem)
next
  assume "BindToParentToken p \<in> set (UnsafeCaveats root)"
  then have "\<not> bound (UnsafeCaveats root) []" by (rule bound_Nil)
  then show "isl (Verify C K U reg root signing_key discharges [])"
    unfolding Verify_def by (auto split: sum.splits prod.splits)
next
  show "HasPrefix tbid []" by (simp add: HasPrefix_def)
next
  assume "length tbid < length p"
  then show "\<not> HasPrefix tbid p" by (simp add: HasPrefix_def)
qed

text \<open>
  The cases of the test "verify - bound root token", a root bound to the prefix
  \<open>de ad\<close>, with a chain whose every link returns its key.
\<close>

theorem Verify_requires_token_binding_witness:
  "Verify example_crypto example_types example_caveats example_registry example_root [5] [] [[222, 173, 190, 239]] = Inr []
   \<and> BindToParentToken [222, 173] \<in> set (UnsafeCaveats example_root)
   \<and> (\<exists>tbid \<in> set [[222, 173, 190, 239]]. HasPrefix tbid [222, 173])
   \<and> Verify example_crypto example_types example_caveats example_registry example_root [5] [] [[222, 173]] = Inr []
   \<and> isl (Verify example_crypto example_types example_caveats example_registry example_root [5] [] [])
   \<and> isl (Verify example_crypto example_types example_caveats example_registry example_root [5] [] [[255]])
   \<and> isl (Verify example_crypto example_types example_caveats example_registry example_root [5] [] [[222]])
   \<and> length [222 :: 8 word] < length [222, 173 :: 8 word]
   \<and> \<not> HasPrefix [222] [222, 173]"
  using Verify_requires_token_binding [where C = "example_crypto" and K = "example_types" and U = "example_caveats" and reg = "example_registry"
      and root = "example_root" and signing_key = "[5]" and discharges = "[]"
      and token_binding_ids = "[[222, 173, 190, 239]]" and cavs = "[]" and p = "[222, 173]"
      and tbid = "[222]"]
  by (simp add: examples Verify_def derive_def step_def HasPrefix_def testCaveats_def)

end
